theory Spec2Isabelle
  imports Complex_Main
begin

section \<open>Python values\<close>

text \<open>
  The scoring engine of \<^verbatim>\<open>ml_model.py\<close> computes on Python and numpy floats. A float is
  modelled as an exact real number or one of the three special values of IEEE 754: the
  arithmetic on finite values is exact (rounding to 53 bits, overflow and the sign of zero
  are not modelled), the special values follow IEEE 754 as Python and numpy implement it.
\<close>

datatype pyfloat = Fin real | PInf | NInf | NaN

fun fneg :: "pyfloat \<Rightarrow> pyfloat" where
  "fneg (Fin a) = Fin (- a)"
| "fneg PInf = NInf"
| "fneg NInf = PInf"
| "fneg NaN = NaN"

fun fadd :: "pyfloat \<Rightarrow> pyfloat \<Rightarrow> pyfloat" where
  "fadd (Fin a) (Fin b) = Fin (a + b)"
| "fadd NaN _ = NaN"
| "fadd _ NaN = NaN"
| "fadd PInf NInf = NaN"
| "fadd NInf PInf = NaN"
| "fadd PInf _ = PInf"
| "fadd _ PInf = PInf"
| "fadd NInf _ = NInf"
| "fadd _ NInf = NInf"

definition fsub :: "pyfloat \<Rightarrow> pyfloat \<Rightarrow> pyfloat" where
  "fsub a b = fadd a (fneg b)"

fun fmul :: "pyfloat \<Rightarrow> pyfloat \<Rightarrow> pyfloat" where
  "fmul (Fin a) (Fin b) = Fin (a * b)"
| "fmul NaN _ = NaN"
| "fmul _ NaN = NaN"
| "fmul PInf (Fin b) = (if b = 0 then NaN else if 0 < b then PInf else NInf)"
| "fmul NInf (Fin b) = (if b = 0 then NaN else if 0 < b then NInf else PInf)"
| "fmul (Fin a) PInf = (if a = 0 then NaN else if 0 < a then PInf else NInf)"
| "fmul (Fin a) NInf = (if a = 0 then NaN else if 0 < a then NInf else PInf)"
| "fmul PInf PInf = PInf"
| "fmul PInf NInf = NInf"
| "fmul NInf PInf = NInf"
| "fmul NInf NInf = PInf"

text \<open>
  Division of numpy's \<^verbatim>\<open>float64\<close>: a zero divisor gives an infinity or NaN (with a
  warning), never an exception.
\<close>

fun fdiv :: "pyfloat \<Rightarrow> pyfloat \<Rightarrow> pyfloat" where
  "fdiv (Fin a) (Fin b) =
     (if b = 0 then (if a = 0 then NaN else if 0 < a then PInf else NInf) else Fin (a / b))"
| "fdiv NaN _ = NaN"
| "fdiv _ NaN = NaN"
| "fdiv (Fin a) PInf = Fin 0"
| "fdiv (Fin a) NInf = Fin 0"
| "fdiv PInf (Fin b) = (if 0 \<le> b then PInf else NInf)"
| "fdiv NInf (Fin b) = (if 0 \<le> b then NInf else PInf)"
| "fdiv PInf PInf = NaN"
| "fdiv PInf NInf = NaN"
| "fdiv NInf PInf = NaN"
| "fdiv NInf NInf = NaN"

text \<open>Comparisons: every comparison with NaN is false.\<close>

fun flt :: "pyfloat \<Rightarrow> pyfloat \<Rightarrow> bool" where
  "flt (Fin a) (Fin b) = (a < b)"
| "flt NaN _ = False"
| "flt _ NaN = False"
| "flt NInf NInf = False"
| "flt NInf _ = True"
| "flt _ NInf = False"
| "flt PInf _ = False"
| "flt _ PInf = True"

fun fle :: "pyfloat \<Rightarrow> pyfloat \<Rightarrow> bool" where
  "fle (Fin a) (Fin b) = (a \<le> b)"
| "fle NaN _ = False"
| "fle _ NaN = False"
| "fle NInf _ = True"
| "fle _ PInf = True"
| "fle _ NInf = False"
| "fle PInf _ = False"

definition fgt :: "pyfloat \<Rightarrow> pyfloat \<Rightarrow> bool" where
  "fgt a b = flt b a"

text \<open>
  Python's builtin \<^verbatim>\<open>min(a, b)\<close> and \<^verbatim>\<open>max(a, b)\<close> keep the first argument unless the
  second compares strictly smaller (larger); with a NaN second argument the first is kept.
\<close>

definition py_min :: "pyfloat \<Rightarrow> pyfloat \<Rightarrow> pyfloat" where
  "py_min a b = (if flt b a then b else a)"

definition py_max :: "pyfloat \<Rightarrow> pyfloat \<Rightarrow> pyfloat" where
  "py_max a b = (if fgt b a then b else a)"


section \<open>Errors and loosely typed values\<close>

text \<open>
  An exception is a value: a function that can raise returns \<open>py_error + 'a\<close>, with
  \<open>Inl\<close> for the exception. \<open>PicklingError\<close> stands for the exception of
  \<^verbatim>\<open>pickle.dump\<close> on an object it cannot serialise (an \<^verbatim>\<open>AttributeError\<close> before
  Python 3.12).
\<close>

datatype py_error =
  TypeError | ValueError | OverflowError | ZeroDivisionError | IndexError
  | PicklingError | EOFError | FileNotFoundError

definition bindE :: "py_error + 'a \<Rightarrow> ('a \<Rightarrow> py_error + 'b) \<Rightarrow> py_error + 'b" where
  "bindE r k = (case r of Inl e \<Rightarrow> Inl e | Inr x \<Rightarrow> k x)"

text \<open>
  The values an application record holds under the six numeric keys: what the form's
  number inputs and the cells of a pandas row are (integers, floats, NaN for a blank
  cell), and \<^verbatim>\<open>None\<close>. Strings are not modelled.
\<close>

datatype pyval = VNone | VInt int | VFloat pyfloat

type_synonym pydict = "string \<rightharpoonup> pyval"

text \<open>\<^verbatim>\<open>application_data.get(key, default)\<close>\<close>

definition dict_get :: "pydict \<Rightarrow> string \<Rightarrow> pyval \<Rightarrow> pyval" where
  "dict_get d k dflt = (case d k of None \<Rightarrow> dflt | Some v \<Rightarrow> v)"

text \<open>
  \<^verbatim>\<open>int(x)\<close> of a float truncates towards zero; it raises ValueError on NaN and
  OverflowError on an infinity.
\<close>

fun int_of_float :: "pyfloat \<Rightarrow> py_error + int" where
  "int_of_float (Fin x) = Inr (if 0 \<le> x then \<lfloor>x\<rfloor> else \<lceil>x\<rceil>)"
| "int_of_float NaN = Inl ValueError"
| "int_of_float PInf = Inl OverflowError"
| "int_of_float NInf = Inl OverflowError"

text \<open>\<^verbatim>\<open>float(v)\<close> and \<^verbatim>\<open>int(v)\<close>; both raise TypeError on \<^verbatim>\<open>None\<close>.\<close>

fun py_float :: "pyval \<Rightarrow> py_error + pyfloat" where
  "py_float VNone = Inl TypeError"
| "py_float (VInt i) = Inr (Fin (of_int i))"
| "py_float (VFloat x) = Inr x"

fun py_int :: "pyval \<Rightarrow> py_error + int" where
  "py_int VNone = Inl TypeError"
| "py_int (VInt i) = Inr i"
| "py_int (VFloat x) = int_of_float x"

text \<open>Python's \<^verbatim>\<open>a / b\<close> on floats raises on a zero divisor.\<close>

definition py_truediv :: "pyfloat \<Rightarrow> pyfloat \<Rightarrow> py_error + pyfloat" where
  "py_truediv a b = (if b = Fin 0 then Inl ZeroDivisionError else Inr (fdiv a b))"

text \<open>\<^verbatim>\<open>xs[i]\<close> for a non-negative index.\<close>

definition py_index :: "'a list \<Rightarrow> nat \<Rightarrow> py_error + 'a" where
  "py_index xs i = (if i < length xs then Inr (xs ! i) else Inl IndexError)"

section \<open>The six features\<close>

text \<open>
  One row of the DataFrame that \<^verbatim>\<open>predict_approval\<close> builds (lines 103 to 110): three
  floats and three integers.
\<close>

record features =
  loan_amount :: pyfloat
  loan_term :: int
  annual_income :: pyfloat
  employment_length :: int
  credit_score :: int
  monthly_debt :: pyfloat

text \<open>
  The dictionary display of lines 103 to 110 evaluates its six entries in order, so the
  first coercion that raises decides the exception.
\<close>

definition extract_features :: "pydict \<Rightarrow> py_error + features" where
  "extract_features application_data =
     bindE (py_float (dict_get application_data ''loan_amount'' (VInt 0))) (\<lambda>la.
     bindE (py_int (dict_get application_data ''loan_term'' (VInt 0))) (\<lambda>lt.
     bindE (py_float (dict_get application_data ''annual_income'' (VInt 0))) (\<lambda>ai.
     bindE (py_int (dict_get application_data ''employment_length'' (VInt 0))) (\<lambda>el.
     bindE (py_int (dict_get application_data ''credit_score'' (VInt 0))) (\<lambda>cs.
     bindE (py_float (dict_get application_data ''monthly_debt'' (VInt 0))) (\<lambda>md.
       Inr \<lparr>loan_amount = la, loan_term = lt, annual_income = ai,
            employment_length = el, credit_score = cs, monthly_debt = md\<rparr>))))))"

section \<open>The rule-based model\<close>

text \<open>
  \<^verbatim>\<open>RuleBasedModel.predict_proba\<close> (lines 52 to 89), one definition for each local
  variable of the loop body. The row of a DataFrame with float and integer columns is a
  float64 series, so every value is a numpy float and the divisions are numpy's.
\<close>

definition rule_monthly_income :: "features \<Rightarrow> pyfloat" where
  "rule_monthly_income f = fdiv (annual_income f) (Fin 12)"

definition rule_dti_ratio :: "features \<Rightarrow> pyfloat" where
  "rule_dti_ratio f =
     (if fgt (rule_monthly_income f) (Fin 0)
      then fdiv (monthly_debt f) (rule_monthly_income f) else Fin 1)"

definition rule_loan_to_income :: "features \<Rightarrow> pyfloat" where
  "rule_loan_to_income f =
     (if fgt (annual_income f) (Fin 0)
      then fdiv (loan_amount f) (annual_income f) else Fin 1)"

definition credit_factor :: "features \<Rightarrow> pyfloat" where
  "credit_factor f =
     py_max (Fin 0) (py_min (Fin 1)
       (fdiv (fsub (Fin (of_int (credit_score f))) (Fin 300)) (Fin 500)))"

definition dti_factor :: "features \<Rightarrow> pyfloat" where
  "dti_factor f = py_max (Fin 0) (py_min (Fin 1) (fsub (Fin 1) (rule_dti_ratio f)))"

definition lti_factor :: "features \<Rightarrow> pyfloat" where
  "lti_factor f = py_max (Fin 0) (py_min (Fin 1) (fsub (Fin 1) (rule_loan_to_income f)))"

text \<open>Line 84: the sum is evaluated from the left, starting at \<^verbatim>\<open>base_score = 0.5\<close>.\<close>

definition rule_raw_score :: "features \<Rightarrow> pyfloat" where
  "rule_raw_score f =
     fadd (fadd (fadd (Fin (5 / 10)) (fmul (Fin (2 / 10)) (credit_factor f)))
                (fmul (Fin (15 / 100)) (dti_factor f)))
          (fmul (Fin (15 / 100)) (lti_factor f))"

definition rule_score :: "features \<Rightarrow> pyfloat" where
  "rule_score f = py_max (Fin (5 / 100)) (py_min (Fin (95 / 100)) (rule_raw_score f))"

definition RuleBasedModel_predict_proba :: "features list \<Rightarrow> pyfloat list list" where
  "RuleBasedModel_predict_proba X = map (\<lambda>f. [fsub (Fin 1) (rule_score f), rule_score f]) X"


section \<open>Model lifecycle\<close>

text \<open>
  A model object is the rule-based model or a random forest of scikit-learn, which is
  recorded by its constructor arguments and the data it was fitted on.
\<close>

datatype model =
  RuleBasedModel
  | RandomForestClassifier (n_estimators: nat) (random_state: nat)
      (fit_X: "pyfloat list list") (fit_y: "int list")

text \<open>
  A row of \<^verbatim>\<open>loan_applications.csv\<close> as pandas reads it: the status and the six numeric
  columns (a blank cell is NaN). The other columns of the file are never read here.
\<close>

record csv_row =
  col_status :: string
  col_loan_amount :: pyfloat
  col_loan_term :: pyfloat
  col_annual_income :: pyfloat
  col_employment_length :: pyfloat
  col_credit_score :: pyfloat
  col_monthly_debt :: pyfloat

text \<open>
  The two files of the working directory. The model file is absent, empty, or holds a
  pickled model.
\<close>

datatype file_content = Empty_File | Pickled model

record files =
  model_file :: "file_content option"
  applications_csv :: "csv_row list option"

text \<open>
  \<^verbatim>\<open>pickle.dump\<close> writes an instance by reference to its class, which it looks up by the
  qualified name of the class in its module. \<^verbatim>\<open>RuleBasedModel\<close> is declared inside the
  function \<^verbatim>\<open>_create_rule_based_model\<close> (line 52), a local class cannot be looked up, and
  the call raises (\<^verbatim>\<open>Can't pickle local object\<close>). A classifier of scikit-learn is
  written. \<^verbatim>\<open>pickle.load\<close> raises EOFError on an empty file.
\<close>

fun pickle_dump :: "model \<Rightarrow> py_error + file_content" where
  "pickle_dump RuleBasedModel = Inl PicklingError"
| "pickle_dump (RandomForestClassifier n s X y) = Inr (Pickled (RandomForestClassifier n s X y))"

fun pickle_load :: "file_content \<Rightarrow> py_error + model" where
  "pickle_load Empty_File = Inl EOFError"
| "pickle_load (Pickled m) = Inr m"

text \<open>
  Lines 38 and 39, and 46 and 47: \<^verbatim>\<open>open(MODEL_FILE, 'wb')\<close> creates the file empty before
  \<^verbatim>\<open>pickle.dump\<close> runs, so a dump that raises leaves an empty file behind.
\<close>

definition save_model :: "model \<Rightarrow> files \<Rightarrow> (py_error + unit) \<times> files" where
  "save_model m fs =
     (case pickle_dump m of
        Inl e \<Rightarrow> (Inl e, fs\<lparr>model_file := Some Empty_File\<rparr>)
      | Inr c \<Rightarrow> (Inr (), fs\<lparr>model_file := Some c\<rparr>))"

text \<open>
  Line 24 keeps the rows with a decision; lines 27 to 31 take the six feature columns of
  these rows, in this order, as \<^verbatim>\<open>X\<close> and the label 1 for an approved row as \<^verbatim>\<open>y\<close>.
\<close>

definition decided_apps :: "csv_row list \<Rightarrow> csv_row list" where
  "decided_apps applications_df =
     filter (\<lambda>r. col_status r = ''approved'' \<or> col_status r = ''rejected'') applications_df"

definition training_X :: "csv_row list \<Rightarrow> pyfloat list list" where
  "training_X rows =
     map (\<lambda>r. [col_loan_amount r, col_loan_term r, col_annual_income r,
               col_employment_length r, col_credit_score r, col_monthly_debt r]) rows"

definition training_y :: "csv_row list \<Rightarrow> int list" where
  "training_y rows = map (\<lambda>r. if col_status r = ''approved'' then 1 else 0) rows"

definition create_rule_based_model :: model where
  "create_rule_based_model = RuleBasedModel"

text \<open>
  \<^verbatim>\<open>train_model_if_needed\<close> (lines 14 to 47): nothing to do when the model file exists,
  a random forest when the applications file exists and holds at least 10 decided rows,
  the rule-based model otherwise.
\<close>

definition train_model_if_needed :: "files \<Rightarrow> (py_error + unit) \<times> files" where
  "train_model_if_needed fs =
     (if model_file fs \<noteq> None then (Inr (), fs)
      else
        (case applications_csv fs of
           Some applications_df \<Rightarrow>
             if length (decided_apps applications_df) \<ge> 10
             then save_model
                    (RandomForestClassifier 50 42
                       (training_X (decided_apps applications_df))
                       (training_y (decided_apps applications_df))) fs
             else save_model create_rule_based_model fs
         | None \<Rightarrow> save_model create_rule_based_model fs))"

section \<open>Scoring\<close>

text \<open>
  \<^verbatim>\<open>model.predict_proba(features)\<close>: the method of the rule-based model, or that of
  scikit-learn's classifier, which is a parameter \<open>sk\<close> of the model: it gives one row of
  class probabilities for each row of features.
\<close>

definition predict_proba ::
  "(model \<Rightarrow> features list \<Rightarrow> pyfloat list list) \<Rightarrow> model \<Rightarrow> features list \<Rightarrow> pyfloat list list"
where
  "predict_proba sk m X =
     (case m of
        RuleBasedModel \<Rightarrow> RuleBasedModel_predict_proba X
      | RandomForestClassifier n s Xt yt \<Rightarrow> sk m X)"

text \<open>Lines 113 to 118 of \<^verbatim>\<open>predict_approval\<close>.\<close>

definition score_features ::
  "(model \<Rightarrow> features list \<Rightarrow> pyfloat list list) \<Rightarrow> model \<Rightarrow> features \<Rightarrow> py_error + int"
where
  "score_features sk m f =
     bindE (py_index (predict_proba sk m [f]) 0) (\<lambda>row.
     bindE (py_index row 1) (\<lambda>prob.
       int_of_float (fmul prob (Fin 100))))"

text \<open>
  \<^verbatim>\<open>predict_approval\<close> returns the score or raises, and leaves the files as
  \<^verbatim>\<open>train_model_if_needed\<close> left them. Opening a model file that does not exist
  (line 99) would raise FileNotFoundError.
\<close>

definition predict_approval ::
  "(model \<Rightarrow> features list \<Rightarrow> pyfloat list list) \<Rightarrow> files \<Rightarrow> pydict \<Rightarrow> (py_error + int) \<times> files"
where
  "predict_approval sk fs application_data =
     (case train_model_if_needed fs of
        (Inl e, fs') \<Rightarrow> (Inl e, fs')
      | (Inr u, fs') \<Rightarrow>
          (case model_file fs' of
             None \<Rightarrow> (Inl FileNotFoundError, fs')
           | Some c \<Rightarrow>
               (bindE (pickle_load c) (\<lambda>m.
                bindE (extract_features application_data) (\<lambda>f.
                  score_features sk m f)), fs')))"

section \<open>Explanations\<close>

text \<open>The four threshold ladders of \<^verbatim>\<open>get_model_explanation\<close> (lines 139 to 174).\<close>

definition credit_explanation :: "int \<Rightarrow> string" where
  "credit_explanation cs =
     (if cs \<ge> 750 then ''Your excellent credit score is favorable for approval.''
      else if cs \<ge> 700 then ''Your good credit score is a positive factor.''
      else if cs \<ge> 650 then ''Your fair credit score may impact your approval odds.''
      else if cs \<ge> 600 then ''Your below-average credit score is a concern.''
      else ''Your credit score is too low for most standard loans.'')"

definition dti_explanation :: "pyfloat \<Rightarrow> string" where
  "dti_explanation dti =
     (if fle dti (Fin (2 / 10))
      then ''Your very low debt-to-income ratio strongly favors approval.''
      else if fle dti (Fin (36 / 100))
      then ''Your debt-to-income ratio is within acceptable limits.''
      else if fle dti (Fin (43 / 100))
      then ''Your debt-to-income ratio is slightly elevated.''
      else ''Your high debt-to-income ratio may limit approval chances.'')"

definition payment_explanation :: "pyfloat \<Rightarrow> string" where
  "payment_explanation pti =
     (if fle pti (Fin (1 / 10))
      then ''The proposed loan payment is easily affordable relative to your income.''
      else if fle pti (Fin (28 / 100))
      then ''The proposed loan payment is reasonably affordable relative to your income.''
      else ''The proposed loan payment is high relative to your income.'')"

definition amount_explanation :: "pyfloat \<Rightarrow> pyfloat \<Rightarrow> string" where
  "amount_explanation la ai =
     (if fle la (fmul ai (Fin (5 / 10)))
      then ''Your requested loan amount is conservative relative to your annual income.''
      else if fle la (fmul ai (Fin 2))
      then ''Your requested loan amount is reasonable relative to your annual income.''
      else ''Your requested loan amount is high relative to your annual income.'')"

text \<open>
  Lines 130 to 133: the derived metrics, on Python floats, whose division raises on a
  zero divisor; each division stands under the guard the source gives it.
\<close>

definition derived_metrics ::
  "pyfloat \<Rightarrow> int \<Rightarrow> pyfloat \<Rightarrow> pyfloat \<Rightarrow> py_error + (pyfloat \<times> pyfloat)"
where
  "derived_metrics la lt ai md =
     bindE (py_truediv ai (Fin 12)) (\<lambda>monthly_income.
     bindE (if fgt monthly_income (Fin 0) then py_truediv md monthly_income else Inr PInf)
       (\<lambda>dti_ratio.
     bindE (if lt > 0 then py_truediv la (Fin (of_int lt)) else Inr PInf)
       (\<lambda>monthly_payment.
     bindE (if fgt monthly_income (Fin 0) then py_truediv monthly_payment monthly_income
            else Inr PInf)
       (\<lambda>payment_to_income. Inr (dti_ratio, payment_to_income)))))"

text \<open>
  Lines 123 to 127 and the four ladders. The bound names \<open>la\<close>, \<open>lt\<close>, \<open>ai\<close>,
  \<open>cs\<close> and \<open>md\<close> stand for the locals \<^verbatim>\<open>loan_amount\<close>, \<^verbatim>\<open>loan_term\<close>,
  \<^verbatim>\<open>annual_income\<close>, \<^verbatim>\<open>credit_score\<close> and \<^verbatim>\<open>monthly_debt\<close>, whose names the
  fields of \<open>features\<close> have taken. The five coercions run in the order of the source,
  so the first that raises decides the exception.
\<close>

definition get_model_explanation :: "pydict \<Rightarrow> py_error + string list" where
  "get_model_explanation application_data =
     bindE (py_float (dict_get application_data ''loan_amount'' (VInt 0))) (\<lambda>la.
     bindE (py_int (dict_get application_data ''loan_term'' (VInt 0))) (\<lambda>lt.
     bindE (py_float (dict_get application_data ''annual_income'' (VInt 0))) (\<lambda>ai.
     bindE (py_int (dict_get application_data ''credit_score'' (VInt 0))) (\<lambda>cs.
     bindE (py_float (dict_get application_data ''monthly_debt'' (VInt 0))) (\<lambda>md.
     bindE (derived_metrics la lt ai md) (\<lambda>(dti_ratio, payment_to_income).
       Inr [credit_explanation cs, dti_explanation dti_ratio,
            payment_explanation payment_to_income, amount_explanation la ai]))))))"


section \<open>The scenario of the specification\<close>

text \<open>
  The application record of the specification's worked example, the features it is
  coerced to, and a row of the applications file with the same numbers.
\<close>

abbreviation scenario_record :: pydict where
  "scenario_record \<equiv>
     [''loan_amount'' \<mapsto> VFloat (Fin 10000), ''loan_term'' \<mapsto> VInt 3,
      ''annual_income'' \<mapsto> VFloat (Fin 50000), ''employment_length'' \<mapsto> VInt 1,
      ''credit_score'' \<mapsto> VInt 700, ''monthly_debt'' \<mapsto> VFloat (Fin 1000)]"

abbreviation scenario_features :: features where
  "scenario_features \<equiv>
     \<lparr>loan_amount = Fin 10000, loan_term = 3, annual_income = Fin 50000,
      employment_length = 1, credit_score = 700, monthly_debt = Fin 1000\<rparr>"

abbreviation scenario_row :: "string \<Rightarrow> csv_row" where
  "scenario_row st \<equiv>
     \<lparr>col_status = st, col_loan_amount = Fin 10000, col_loan_term = Fin 3,
      col_annual_income = Fin 50000, col_employment_length = Fin 1,
      col_credit_score = Fin 700, col_monthly_debt = Fin 1000\<rparr>"

section \<open>Properties of the rule-based score\<close>

text \<open>
  Whatever the input, a factor is a finite number of the unit interval: an infinite or
  NaN ratio is clamped away by \<^verbatim>\<open>max(0, min(1, ...))\<close>.
\<close>

lemma clamp_unit:
  "\<exists>c. py_max (Fin 0) (py_min (Fin 1) x) = Fin c \<and> 0 \<le> c \<and> c \<le> 1"
  by (cases x) (auto simp: py_max_def py_min_def fgt_def)

lemma clamp_unit_Fin:
  "py_max (Fin 0) (py_min (Fin 1) (Fin a)) = Fin (max 0 (min 1 a))"
  by (auto simp: py_max_def py_min_def fgt_def)

lemma clamp_prob_Fin:
  "py_max (Fin (5 / 100)) (py_min (Fin (95 / 100)) (Fin a)) = Fin (max (5 / 100) (min (95 / 100) a))"
  by (auto simp: py_max_def py_min_def fgt_def)

lemma credit_factor_Fin:
  "credit_factor f = Fin (max 0 (min 1 ((real_of_int (credit_score f) - 300) / 500)))"
  unfolding credit_factor_def fsub_def by (simp add: clamp_unit_Fin)

lemma dti_factor_unit: "\<exists>d. dti_factor f = Fin d \<and> 0 \<le> d \<and> d \<le> 1"
  unfolding dti_factor_def by (rule clamp_unit)

lemma lti_factor_unit: "\<exists>l. lti_factor f = Fin l \<and> 0 \<le> l \<and> l \<le> 1"
  unfolding lti_factor_def by (rule clamp_unit)

lemma rule_score_Fin:
  assumes "dti_factor f = Fin d" and "lti_factor f = Fin l"
  shows "rule_score f =
    Fin (max (5 / 100) (min (95 / 100)
      (5 / 10 + 2 / 10 * max 0 (min 1 ((real_of_int (credit_score f) - 300) / 500))
        + 15 / 100 * d + 15 / 100 * l)))"
  unfolding rule_score_def rule_raw_score_def credit_factor_Fin assms
  by (simp only: fmul.simps fadd.simps clamp_prob_Fin)

lemma rule_score_range: "\<exists>p. rule_score f = Fin p \<and> 5 / 10 \<le> p \<and> p \<le> 95 / 100"
proof -
  obtain d where d: "dti_factor f = Fin d" "0 \<le> d" "d \<le> 1"
    using dti_factor_unit by blast
  obtain l where l: "lti_factor f = Fin l" "0 \<le> l" "l \<le> 1"
    using lti_factor_unit by blast
  define c where "c = max 0 (min 1 ((real_of_int (credit_score f) - 300) / 500))"
  define r where "r = 5 / 10 + 2 / 10 * c + 15 / 100 * d + 15 / 100 * l"
  have c: "0 \<le> c" by (simp add: c_def)
  have score: "rule_score f = Fin (max (5 / 100) (min (95 / 100) r))"
    unfolding r_def c_def by (rule rule_score_Fin [OF d(1) l(1)])
  have r: "5 / 10 \<le> r"
    unfolding r_def using c d(2) l(2) by simp
  have lo: "5 / 10 \<le> max (5 / 100) (min (95 / 100) r)"
    using r by (simp add: max_def min_def)
  have hi: "max (5 / 100) (min (95 / 100) r) \<le> 95 / 100"
    by (simp add: max_def min_def)
  show ?thesis using score lo hi by blast
qed

lemma score_features_rule:
  "score_features sk RuleBasedModel f = int_of_float (fmul (rule_score f) (Fin 100))"
  by (simp add: score_features_def predict_proba_def RuleBasedModel_predict_proba_def
      py_index_def bindE_def)

lemma score_features_rule_Fin:
  assumes "rule_score f = Fin p" and "0 \<le> p"
  shows "score_features sk RuleBasedModel f = Inr \<lfloor>p * 100\<rfloor>"
  using assms by (simp add: score_features_rule)

text \<open>
  Claim C2. For every feature input, the probability of the rule-based model is a finite
  number clamped into [0.05, 0.95] before it is converted, and the score that lines 113 to
  116 of \<open>predict_approval\<close> compute from the rule-based model is an integer of [5, 95],
  so of [0, 100]. The statement has no condition on the features, so it covers the features
  with a positive income and a positive term.
\<close>

theorem rule_score_bounds:
  "\<exists>p s. rule_score f = Fin p \<and> 5 / 100 \<le> p \<and> p \<le> 95 / 100 \<and>
     score_features sk RuleBasedModel f = Inr s \<and> 5 \<le> s \<and> s \<le> 95"
proof -
  obtain p where p: "rule_score f = Fin p" "5 / 10 \<le> p" "p \<le> 95 / 100"
    using rule_score_range by blast
  have s: "score_features sk RuleBasedModel f = Inr \<lfloor>p * 100\<rfloor>"
    using p by (intro score_features_rule_Fin) auto
  have "5 \<le> \<lfloor>p * 100\<rfloor>" using p(2) by (simp add: le_floor_iff)
  moreover have "\<lfloor>p * 100\<rfloor> \<le> 95" using p(3) by (simp add: floor_le_iff)
  ultimately show ?thesis using p s by (intro exI [of _ p] exI [of _ "\<lfloor>p * 100\<rfloor>"]) auto
qed



text \<open>The probability reads four of the six features only.\<close>

lemma rule_factors_cong:
  assumes "loan_amount g = loan_amount f" and "annual_income g = annual_income f"
    and "monthly_debt g = monthly_debt f"
  shows "dti_factor g = dti_factor f" and "lti_factor g = lti_factor f"
  using assms
  by (simp_all add: dti_factor_def lti_factor_def rule_dti_ratio_def rule_loan_to_income_def
      rule_monthly_income_def)

lemma rule_score_cong:
  assumes "loan_amount g = loan_amount f" and "annual_income g = annual_income f"
    and "monthly_debt g = monthly_debt f" and "credit_score g = credit_score f"
  shows "rule_score g = rule_score f"
  using assms rule_factors_cong [OF assms(1-3)]
  by (simp add: rule_score_def rule_raw_score_def credit_factor_def)

text \<open>
  Claim C9. The output of the rule-based model does not depend on \<open>loan_term\<close> or
  \<open>employment_length\<close>: two feature rows that agree on \<open>loan_amount\<close>,
  \<open>annual_income\<close>, \<open>credit_score\<close> and \<open>monthly_debt\<close> get the same probabilities
  from \<open>RuleBasedModel.predict_proba\<close> and the same score.
\<close>

theorem rule_score_ignores_term_and_employment:
  assumes "loan_amount g = loan_amount f" and "annual_income g = annual_income f"
    and "credit_score g = credit_score f" and "monthly_debt g = monthly_debt f"
  shows "RuleBasedModel_predict_proba [g] = RuleBasedModel_predict_proba [f] \<and>
         score_features sk RuleBasedModel g = score_features sk RuleBasedModel f"
  using rule_score_cong [OF assms(1,2,4,3)]
  by (simp add: RuleBasedModel_predict_proba_def score_features_rule)

text \<open>The witness: the scenario of the specification, with another term and employment.\<close>

theorem rule_score_ignores_witness:
  "RuleBasedModel_predict_proba
     [\<lparr>loan_amount = Fin 10000, loan_term = 30, annual_income = Fin 50000,
       employment_length = 12, credit_score = 700, monthly_debt = Fin 1000\<rparr>] =
   RuleBasedModel_predict_proba
     [\<lparr>loan_amount = Fin 10000, loan_term = 3, annual_income = Fin 50000,
       employment_length = 1, credit_score = 700, monthly_debt = Fin 1000\<rparr>] \<and>
   score_features (\<lambda>m X. []) RuleBasedModel
     \<lparr>loan_amount = Fin 10000, loan_term = 30, annual_income = Fin 50000,
       employment_length = 12, credit_score = 700, monthly_debt = Fin 1000\<rparr> =
   score_features (\<lambda>m X. []) RuleBasedModel
     \<lparr>loan_amount = Fin 10000, loan_term = 3, annual_income = Fin 50000,
       employment_length = 1, credit_score = 700, monthly_debt = Fin 1000\<rparr>"
  by (rule rule_score_ignores_term_and_employment) simp_all


lemma credit_clamp_mono:
  assumes "c \<le> c'"
  shows "max 0 (min 1 ((real_of_int c - 300) / 500)) \<le> max 0 (min 1 ((real_of_int c' - 300) / 500))"
proof -
  have "(real_of_int c - 300) / 500 \<le> (real_of_int c' - 300) / 500"
    using assms by (simp add: divide_right_mono)
  then show ?thesis by (simp add: max_def min_def)
qed

text \<open>
  Claim C8. The rule-based score is monotonic non-decreasing in \<open>credit_score\<close>: of two
  feature rows that differ in the credit score only, the one with the larger credit score
  gets a score that is greater or equal. Both scores exist.
\<close>

theorem rule_score_mono_credit:
  assumes "loan_amount g = loan_amount f" and "loan_term g = loan_term f"
    and "annual_income g = annual_income f" and "employment_length g = employment_length f"
    and "monthly_debt g = monthly_debt f"
    and "credit_score f \<le> credit_score g"
  shows "\<exists>s t. score_features sk RuleBasedModel f = Inr s \<and>
               score_features sk RuleBasedModel g = Inr t \<and> s \<le> t"
proof -
  obtain d where d: "dti_factor f = Fin d" "0 \<le> d"
    using dti_factor_unit by blast
  obtain l where l: "lti_factor f = Fin l" "0 \<le> l"
    using lti_factor_unit by blast
  have dg: "dti_factor g = Fin d" and lg: "lti_factor g = Fin l"
    using rule_factors_cong [OF assms(1,3,5)] d(1) l(1) by simp_all
  define cf where "cf = max 0 (min 1 ((real_of_int (credit_score f) - 300) / 500))"
  define cg where "cg = max 0 (min 1 ((real_of_int (credit_score g) - 300) / 500))"
  define rf where "rf = 5 / 10 + 2 / 10 * cf + 15 / 100 * d + 15 / 100 * l"
  define rg where "rg = 5 / 10 + 2 / 10 * cg + 15 / 100 * d + 15 / 100 * l"
  define pf where "pf = max (5 / 100) (min (95 / 100) rf)"
  define pg where "pg = max (5 / 100) (min (95 / 100) rg)"
  have sf: "rule_score f = Fin pf"
    unfolding pf_def rf_def cf_def by (rule rule_score_Fin [OF d(1) l(1)])
  have sg: "rule_score g = Fin pg"
    unfolding pg_def rg_def cg_def by (rule rule_score_Fin [OF dg lg])
  have "cf \<le> cg"
    unfolding cf_def cg_def by (rule credit_clamp_mono [OF assms(6)])
  then have "rf \<le> rg"
    unfolding rf_def rg_def by simp
  then have le: "pf \<le> pg"
    unfolding pf_def pg_def by (simp add: max_def min_def)
  have pos: "0 \<le> pf"
    unfolding pf_def by (simp add: max_def)
  then have pos': "0 \<le> pg" using le by simp
  have "score_features sk RuleBasedModel f = Inr \<lfloor>pf * 100\<rfloor>"
    by (rule score_features_rule_Fin [OF sf pos])
  moreover have "score_features sk RuleBasedModel g = Inr \<lfloor>pg * 100\<rfloor>"
    by (rule score_features_rule_Fin [OF sg pos'])
  moreover have "\<lfloor>pf * 100\<rfloor> \<le> \<lfloor>pg * 100\<rfloor>"
    using le by (intro floor_mono) simp
  ultimately show ?thesis by blast
qed

text \<open>The witness: credit scores 700 and 750 in the scenario of the specification.\<close>

theorem rule_score_mono_credit_witness:
  "\<exists>s t. score_features (\<lambda>m X. []) RuleBasedModel
            \<lparr>loan_amount = Fin 10000, loan_term = 3, annual_income = Fin 50000,
             employment_length = 1, credit_score = 700, monthly_debt = Fin 1000\<rparr> = Inr s \<and>
         score_features (\<lambda>m X. []) RuleBasedModel
            \<lparr>loan_amount = Fin 10000, loan_term = 3, annual_income = Fin 50000,
             employment_length = 1, credit_score = 750, monthly_debt = Fin 1000\<rparr> = Inr t \<and>
         s \<le> t"
  by (rule rule_score_mono_credit) simp_all


lemmas rule_defs = rule_monthly_income_def rule_dti_ratio_def rule_loan_to_income_def
  credit_factor_def dti_factor_def lti_factor_def rule_raw_score_def rule_score_def
  py_min_def py_max_def fgt_def fsub_def



section \<open>Properties of the model lifecycle\<close>

text \<open>
  What \<open>train_model_if_needed\<close> does in each of its branches. Where it builds the
  rule-based model, the dump of line 47 raises and the file of line 46 stays empty.
\<close>

lemma save_rule_model:
  "save_model RuleBasedModel fs = (Inl PicklingError, fs\<lparr>model_file := Some Empty_File\<rparr>)"
  by (simp add: save_model_def)

lemma save_forest:
  "save_model (RandomForestClassifier n s X y) fs =
     (Inr (), fs\<lparr>model_file := Some (Pickled (RandomForestClassifier n s X y))\<rparr>)"
  by (simp add: save_model_def)

lemma train_existing:
  "model_file fs = Some c \<Longrightarrow> train_model_if_needed fs = (Inr (), fs)"
  by (simp add: train_model_if_needed_def)

lemma train_no_csv:
  assumes "model_file fs = None" and "applications_csv fs = None"
  shows "train_model_if_needed fs = (Inl PicklingError, fs\<lparr>model_file := Some Empty_File\<rparr>)"
  using assms by (simp add: train_model_if_needed_def create_rule_based_model_def save_rule_model)

lemma train_few_decided:
  assumes "model_file fs = None" and "applications_csv fs = Some df"
    and "length (decided_apps df) < 10"
  shows "train_model_if_needed fs = (Inl PicklingError, fs\<lparr>model_file := Some Empty_File\<rparr>)"
  using assms by (simp add: train_model_if_needed_def create_rule_based_model_def save_rule_model)

lemma train_enough_decided:
  assumes "model_file fs = None" and "applications_csv fs = Some df"
    and "10 \<le> length (decided_apps df)"
  shows "train_model_if_needed fs =
    (Inr (), fs\<lparr>model_file := Some (Pickled (RandomForestClassifier 50 42
       (training_X (decided_apps df)) (training_y (decided_apps df))))\<rparr>)"
  using assms by (simp add: train_model_if_needed_def save_forest)

lemma train_never_rule:
  "model_file (snd (train_model_if_needed fs)) = Some (Pickled RuleBasedModel) \<longleftrightarrow>
   model_file fs = Some (Pickled RuleBasedModel)"
  by (auto simp: train_model_if_needed_def save_model_def create_rule_based_model_def
      split: option.splits)

lemma decided_replicate:
  "decided_apps (replicate n r) =
     (if col_status r = ''approved'' \<or> col_status r = ''rejected'' then replicate n r else [])"
  by (simp add: decided_apps_def)


lemma decided_append: "decided_apps (xs @ ys) = decided_apps xs @ decided_apps ys"
  by (simp add: decided_apps_def)

lemma extract_scenario: "extract_features scenario_record = Inr scenario_features"
  by (simp add: extract_features_def dict_get_def bindE_def)

lemma predict_approval_train_fails:
  assumes "train_model_if_needed fs = (Inl e, fs')"
  shows "predict_approval sk fs application_data = (Inl e, fs')"
  using assms by (simp add: predict_approval_def)


text \<open>
  Claim C1. On the features of the scenario the rule-based model computes the numbers of
  the claim, and lines 113 to 116 turn its probability 0.894 into the score 89. But
  \<open>predict_approval\<close> does not return 89: where no model file exists, it builds the
  rule-based model and raises when it pickles it, and on the next call it raises on the
  empty file that the first call left.
\<close>

theorem scenario_rule_path:
  "rule_dti_ratio scenario_features = Fin (24 / 100) \<and>
   rule_loan_to_income scenario_features = Fin (2 / 10) \<and>
   credit_factor scenario_features = Fin (8 / 10) \<and>
   dti_factor scenario_features = Fin (76 / 100) \<and>
   lti_factor scenario_features = Fin (8 / 10) \<and>
   rule_score scenario_features = Fin (894 / 1000) \<and>
   score_features sk RuleBasedModel scenario_features = Inr 89 \<and>
   extract_features scenario_record = Inr scenario_features \<and>
   predict_approval sk \<lparr>model_file = None, applications_csv = None\<rparr> scenario_record =
     (Inl PicklingError, \<lparr>model_file = Some Empty_File, applications_csv = None\<rparr>) \<and>
   predict_approval sk \<lparr>model_file = Some Empty_File, applications_csv = None\<rparr> scenario_record =
     (Inl EOFError, \<lparr>model_file = Some Empty_File, applications_csv = None\<rparr>)"
proof -
  have 1: "rule_dti_ratio scenario_features = Fin (24 / 100)"
    by (simp add: rule_defs)
  have 2: "rule_loan_to_income scenario_features = Fin (2 / 10)"
    by (simp add: rule_defs)
  have 3: "credit_factor scenario_features = Fin (8 / 10)"
    by (simp add: rule_defs)
  have 4: "dti_factor scenario_features = Fin (76 / 100)"
    by (simp add: rule_defs)
  have 5: "lti_factor scenario_features = Fin (8 / 10)"
    by (simp add: rule_defs)
  have 6: "rule_score scenario_features = Fin (894 / 1000)"
    by (simp add: rule_defs)
  have 7: "score_features sk RuleBasedModel scenario_features = Inr 89"
    by (simp add: score_features_rule 6)
  have 8: "predict_approval sk \<lparr>model_file = None, applications_csv = None\<rparr> scenario_record =
     (Inl PicklingError, \<lparr>model_file = Some Empty_File, applications_csv = None\<rparr>)"
    by (simp add: predict_approval_train_fails train_no_csv)
  have 9: "predict_approval sk \<lparr>model_file = Some Empty_File, applications_csv = None\<rparr> scenario_record =
     (Inl EOFError, \<lparr>model_file = Some Empty_File, applications_csv = None\<rparr>)"
    by (simp add: predict_approval_def train_model_if_needed_def bindE_def)
  show ?thesis using 1 2 3 4 5 6 7 8 9 extract_scenario by blast
qed

text \<open>
  Claim C6. With 9 decided records (and some pending ones) and no model file, the trainer
  chooses the rule-based branch, raises in the dump and leaves an empty model file, on
  which the next scoring call raises. With 10 decided records it fits the classifier on
  the six columns, with the label 1 for an approved record, and the file holds it.
\<close>

theorem nine_decided_records:
  "train_model_if_needed
     \<lparr>model_file = None,
      applications_csv = Some (replicate 9 (scenario_row ''approved'') @
                               replicate 4 (scenario_row ''pending''))\<rparr> =
     (Inl PicklingError,
      \<lparr>model_file = Some Empty_File,
       applications_csv = Some (replicate 9 (scenario_row ''approved'') @
                                replicate 4 (scenario_row ''pending''))\<rparr>) \<and>
   predict_approval sk
     \<lparr>model_file = Some Empty_File,
      applications_csv = Some (replicate 9 (scenario_row ''approved'') @
                               replicate 4 (scenario_row ''pending''))\<rparr> scenario_record =
     (Inl EOFError,
      \<lparr>model_file = Some Empty_File,
       applications_csv = Some (replicate 9 (scenario_row ''approved'') @
                                replicate 4 (scenario_row ''pending''))\<rparr>) \<and>
   train_model_if_needed
     \<lparr>model_file = None,
      applications_csv = Some (replicate 6 (scenario_row ''approved'') @
                               replicate 4 (scenario_row ''rejected'') @
                               replicate 4 (scenario_row ''pending''))\<rparr> =
     (Inr (),
      \<lparr>model_file = Some (Pickled (RandomForestClassifier 50 42
          (replicate 10 [Fin 10000, Fin 3, Fin 50000, Fin 1, Fin 700, Fin 1000])
          (replicate 6 1 @ replicate 4 0))),
       applications_csv = Some (replicate 6 (scenario_row ''approved'') @
                               replicate 4 (scenario_row ''rejected'') @
                               replicate 4 (scenario_row ''pending''))\<rparr>)"
proof -
  have a: "train_model_if_needed
     \<lparr>model_file = None,
      applications_csv = Some (replicate 9 (scenario_row ''approved'') @
                               replicate 4 (scenario_row ''pending''))\<rparr> =
     (Inl PicklingError,
      \<lparr>model_file = Some Empty_File,
       applications_csv = Some (replicate 9 (scenario_row ''approved'') @
                                replicate 4 (scenario_row ''pending''))\<rparr>)"
    by (subst train_few_decided [where df = "replicate 9 (scenario_row ''approved'') @
                               replicate 4 (scenario_row ''pending'')"])
       (simp_all add: decided_append decided_replicate)
  have b: "predict_approval sk
     \<lparr>model_file = Some Empty_File,
      applications_csv = Some (replicate 9 (scenario_row ''approved'') @
                               replicate 4 (scenario_row ''pending''))\<rparr> scenario_record =
     (Inl EOFError,
      \<lparr>model_file = Some Empty_File,
       applications_csv = Some (replicate 9 (scenario_row ''approved'') @
                                replicate 4 (scenario_row ''pending''))\<rparr>)"
    by (simp add: predict_approval_def train_model_if_needed_def bindE_def)
  have x: "replicate 6 r @ replicate 4 r = replicate 10 r" for r :: "pyfloat list"
    by (simp flip: replicate_add)
  have c: "train_model_if_needed
     \<lparr>model_file = None,
      applications_csv = Some (replicate 6 (scenario_row ''approved'') @
                               replicate 4 (scenario_row ''rejected'') @
                               replicate 4 (scenario_row ''pending''))\<rparr> =
     (Inr (),
      \<lparr>model_file = Some (Pickled (RandomForestClassifier 50 42
          (replicate 10 [Fin 10000, Fin 3, Fin 50000, Fin 1, Fin 700, Fin 1000])
          (replicate 6 1 @ replicate 4 0))),
       applications_csv = Some (replicate 6 (scenario_row ''approved'') @
                               replicate 4 (scenario_row ''rejected'') @
                               replicate 4 (scenario_row ''pending''))\<rparr>)"
    by (subst train_enough_decided [where df = "replicate 6 (scenario_row ''approved'') @
                               replicate 4 (scenario_row ''rejected'') @
                               replicate 4 (scenario_row ''pending'')"])
       (simp_all add: decided_append decided_replicate training_X_def training_y_def x)
  show ?thesis using a b c by blast
qed



section \<open>The score of the learned classifier\<close>







section \<open>Feature extraction\<close>

text \<open>
  The coercion of one field, with the default 0 for a missing key: when it succeeds, and
  what it gives.
\<close>

lemma float_field_ok:
  "(\<exists>v. py_float (dict_get d k (VInt 0)) = Inr v) \<longleftrightarrow> d k \<noteq> Some VNone"
  by (cases "d k"; cases "the (d k)") (auto simp: dict_get_def)

lemma int_field_ok:
  "(\<exists>n. py_int (dict_get d k (VInt 0)) = Inr n) \<longleftrightarrow>
   d k \<notin> {Some VNone, Some (VFloat NaN), Some (VFloat PInf), Some (VFloat NInf)}"
proof (cases "d k")
  case None
  then show ?thesis by (simp add: dict_get_def)
next
  case (Some v)
  show ?thesis
  proof (cases v)
    case VNone
    with Some show ?thesis by (simp add: dict_get_def)
  next
    case (VInt i)
    with Some show ?thesis by (simp add: dict_get_def)
  next
    case (VFloat x)
    with Some show ?thesis by (cases x) (simp_all add: dict_get_def)
  qed
qed

lemma float_field:
  assumes "py_float (dict_get d k (VInt 0)) = Inr v"
  shows "(d k = None \<longrightarrow> v = Fin 0) \<and>
         (\<forall>i. d k = Some (VInt i) \<longrightarrow> v = Fin (of_int i)) \<and>
         (\<forall>x. d k = Some (VFloat x) \<longrightarrow> v = x)"
  using assms by (auto simp: dict_get_def)

lemma int_field:
  assumes "py_int (dict_get d k (VInt 0)) = Inr n"
  shows "(d k = None \<longrightarrow> n = 0) \<and>
         (\<forall>i. d k = Some (VInt i) \<longrightarrow> n = i) \<and>
         (\<forall>x. d k = Some (VFloat (Fin x)) \<longrightarrow> n = (if 0 \<le> x then \<lfloor>x\<rfloor> else \<lceil>x\<rceil>))"
  using assms by (auto simp: dict_get_def)

lemma bindE_Inr_iff: "bindE r k = Inr y \<longleftrightarrow> (\<exists>x. r = Inr x \<and> k x = Inr y)"
  by (cases r) (simp_all add: bindE_def)

lemma extract_features_Inr_iff:
  "extract_features d = Inr f \<longleftrightarrow>
     py_float (dict_get d ''loan_amount'' (VInt 0)) = Inr (loan_amount f) \<and>
     py_int (dict_get d ''loan_term'' (VInt 0)) = Inr (loan_term f) \<and>
     py_float (dict_get d ''annual_income'' (VInt 0)) = Inr (annual_income f) \<and>
     py_int (dict_get d ''employment_length'' (VInt 0)) = Inr (employment_length f) \<and>
     py_int (dict_get d ''credit_score'' (VInt 0)) = Inr (credit_score f) \<and>
     py_float (dict_get d ''monthly_debt'' (VInt 0)) = Inr (monthly_debt f)"
  unfolding extract_features_def bindE_Inr_iff
  by (cases f) auto

lemma extract_features_ok_iff:
  "(\<exists>f. extract_features d = Inr f) \<longleftrightarrow>
     (\<exists>v. py_float (dict_get d ''loan_amount'' (VInt 0)) = Inr v) \<and>
     (\<exists>n. py_int (dict_get d ''loan_term'' (VInt 0)) = Inr n) \<and>
     (\<exists>v. py_float (dict_get d ''annual_income'' (VInt 0)) = Inr v) \<and>
     (\<exists>n. py_int (dict_get d ''employment_length'' (VInt 0)) = Inr n) \<and>
     (\<exists>n. py_int (dict_get d ''credit_score'' (VInt 0)) = Inr n) \<and>
     (\<exists>v. py_float (dict_get d ''monthly_debt'' (VInt 0)) = Inr v)"
  unfolding extract_features_def bindE_Inr_iff by blast


lemma extract_ok_keys:
  "(\<exists>f. extract_features d = Inr f) \<longleftrightarrow>
      (\<forall>k \<in> {''loan_amount'', ''loan_term'', ''annual_income'', ''employment_length'',
              ''credit_score'', ''monthly_debt''}. d k \<noteq> Some VNone) \<and>
      (\<forall>k \<in> {''loan_term'', ''employment_length'', ''credit_score''}.
          d k \<notin> {Some (VFloat NaN), Some (VFloat PInf), Some (VFloat NInf)})"
  apply (simp only: extract_features_ok_iff float_field_ok int_field_ok ball_simps insert_iff empty_iff de_Morgan_disj simp_thms)
  apply (rule iffI)
   apply (elim conjE)
   apply (intro conjI; assumption)
  apply (elim conjE)
  apply (intro conjI; assumption)
  done


text \<open>
  Claim C4, as the code has it. Feature extraction reads the six named fields, a missing
  field defaulting to 0. It converts \<open>loan_term\<close>, \<open>employment_length\<close> and
  \<open>credit_score\<close> with \<^verbatim>\<open>int\<close>, which truncates a float towards zero and does not
  round, and \<open>loan_amount\<close>, \<open>annual_income\<close> and \<open>monthly_debt\<close> with \<^verbatim>\<open>float\<close>.
  It succeeds exactly on the records in which none of the six fields is \<^verbatim>\<open>None\<close> and
  none of the three integer fields is NaN or an infinity; on every other record it raises.
\<close>

theorem extract_features_coerces:
  "((\<exists>f. extract_features d = Inr f) \<longleftrightarrow>
      (\<forall>k \<in> {''loan_amount'', ''loan_term'', ''annual_income'', ''employment_length'',
              ''credit_score'', ''monthly_debt''}. d k \<noteq> Some VNone) \<and>
      (\<forall>k \<in> {''loan_term'', ''employment_length'', ''credit_score''}.
          d k \<notin> {Some (VFloat NaN), Some (VFloat PInf), Some (VFloat NInf)})) \<and>
   (\<forall>f. extract_features d = Inr f \<longrightarrow>
      (d ''loan_amount'' = None \<longrightarrow> loan_amount f = Fin 0) \<and>
      (\<forall>i. d ''loan_amount'' = Some (VInt i) \<longrightarrow> loan_amount f = Fin (of_int i)) \<and>
      (\<forall>x. d ''loan_amount'' = Some (VFloat x) \<longrightarrow> loan_amount f = x) \<and>
      (d ''annual_income'' = None \<longrightarrow> annual_income f = Fin 0) \<and>
      (\<forall>i. d ''annual_income'' = Some (VInt i) \<longrightarrow> annual_income f = Fin (of_int i)) \<and>
      (\<forall>x. d ''annual_income'' = Some (VFloat x) \<longrightarrow> annual_income f = x) \<and>
      (d ''monthly_debt'' = None \<longrightarrow> monthly_debt f = Fin 0) \<and>
      (\<forall>i. d ''monthly_debt'' = Some (VInt i) \<longrightarrow> monthly_debt f = Fin (of_int i)) \<and>
      (\<forall>x. d ''monthly_debt'' = Some (VFloat x) \<longrightarrow> monthly_debt f = x) \<and>
      (d ''loan_term'' = None \<longrightarrow> loan_term f = 0) \<and>
      (\<forall>i. d ''loan_term'' = Some (VInt i) \<longrightarrow> loan_term f = i) \<and>
      (\<forall>x. d ''loan_term'' = Some (VFloat (Fin x)) \<longrightarrow>
           loan_term f = (if 0 \<le> x then \<lfloor>x\<rfloor> else \<lceil>x\<rceil>)) \<and>
      (d ''employment_length'' = None \<longrightarrow> employment_length f = 0) \<and>
      (\<forall>i. d ''employment_length'' = Some (VInt i) \<longrightarrow> employment_length f = i) \<and>
      (\<forall>x. d ''employment_length'' = Some (VFloat (Fin x)) \<longrightarrow>
           employment_length f = (if 0 \<le> x then \<lfloor>x\<rfloor> else \<lceil>x\<rceil>)) \<and>
      (d ''credit_score'' = None \<longrightarrow> credit_score f = 0) \<and>
      (\<forall>i. d ''credit_score'' = Some (VInt i) \<longrightarrow> credit_score f = i) \<and>
      (\<forall>x. d ''credit_score'' = Some (VFloat (Fin x)) \<longrightarrow>
           credit_score f = (if 0 \<le> x then \<lfloor>x\<rfloor> else \<lceil>x\<rceil>)))"
proof (intro conjI allI impI)
  show "(\<exists>f. extract_features d = Inr f) \<longleftrightarrow>
      (\<forall>k \<in> {''loan_amount'', ''loan_term'', ''annual_income'', ''employment_length'',
              ''credit_score'', ''monthly_debt''}. d k \<noteq> Some VNone) \<and>
      (\<forall>k \<in> {''loan_term'', ''employment_length'', ''credit_score''}.
          d k \<notin> {Some (VFloat NaN), Some (VFloat PInf), Some (VFloat NInf)})"
    by (rule extract_ok_keys)
next
  fix f
  assume "extract_features d = Inr f"
  then have c:
    "py_float (dict_get d ''loan_amount'' (VInt 0)) = Inr (loan_amount f)"
    "py_int (dict_get d ''loan_term'' (VInt 0)) = Inr (loan_term f)"
    "py_float (dict_get d ''annual_income'' (VInt 0)) = Inr (annual_income f)"
    "py_int (dict_get d ''employment_length'' (VInt 0)) = Inr (employment_length f)"
    "py_int (dict_get d ''credit_score'' (VInt 0)) = Inr (credit_score f)"
    "py_float (dict_get d ''monthly_debt'' (VInt 0)) = Inr (monthly_debt f)"
    by (simp_all add: extract_features_Inr_iff)
  note la = float_field [OF c(1)] and lt = int_field [OF c(2)] and ai = float_field [OF c(3)]
    and el = int_field [OF c(4)] and cs = int_field [OF c(5)] and md = float_field [OF c(6)]
  {
    assume "d ''loan_amount'' = None"
    then show "loan_amount f = Fin 0" using la by blast
  next
    fix i assume "d ''loan_amount'' = Some (VInt i)"
    then show "loan_amount f = Fin (of_int i)" using la by blast
  next
    fix x assume "d ''loan_amount'' = Some (VFloat x)"
    then show "loan_amount f = x" using la by blast
  next
    assume "d ''annual_income'' = None"
    then show "annual_income f = Fin 0" using ai by blast
  next
    fix i assume "d ''annual_income'' = Some (VInt i)"
    then show "annual_income f = Fin (of_int i)" using ai by blast
  next
    fix x assume "d ''annual_income'' = Some (VFloat x)"
    then show "annual_income f = x" using ai by blast
  next
    assume "d ''monthly_debt'' = None"
    then show "monthly_debt f = Fin 0" using md by blast
  next
    fix i assume "d ''monthly_debt'' = Some (VInt i)"
    then show "monthly_debt f = Fin (of_int i)" using md by blast
  next
    fix x assume "d ''monthly_debt'' = Some (VFloat x)"
    then show "monthly_debt f = x" using md by blast
  next
    assume "d ''loan_term'' = None"
    then show "loan_term f = 0" using lt by blast
  next
    fix i assume "d ''loan_term'' = Some (VInt i)"
    then show "loan_term f = i" using lt by blast
  next
    fix x assume "d ''loan_term'' = Some (VFloat (Fin x))"
    then show "loan_term f = (if 0 \<le> x then \<lfloor>x\<rfloor> else \<lceil>x\<rceil>)" using lt by blast
  next
    assume "d ''employment_length'' = None"
    then show "employment_length f = 0" using el by blast
  next
    fix i assume "d ''employment_length'' = Some (VInt i)"
    then show "employment_length f = i" using el by blast
  next
    fix x assume "d ''employment_length'' = Some (VFloat (Fin x))"
    then show "employment_length f = (if 0 \<le> x then \<lfloor>x\<rfloor> else \<lceil>x\<rceil>)" using el by blast
  next
    assume "d ''credit_score'' = None"
    then show "credit_score f = 0" using cs by blast
  next
    fix i assume "d ''credit_score'' = Some (VInt i)"
    then show "credit_score f = i" using cs by blast
  next
    fix x assume "d ''credit_score'' = Some (VFloat (Fin x))"
    then show "credit_score f = (if 0 \<le> x then \<lfloor>x\<rfloor> else \<lceil>x\<rceil>)" using cs by blast
  }
qed

text \<open>
  The witness: a record with an integer, two floats that are not whole, and three missing
  fields.
\<close>

theorem extract_features_coerces_witness:
  "\<exists>f. extract_features
          [''loan_amount'' \<mapsto> VInt 10000, ''loan_term'' \<mapsto> VFloat (Fin (37 / 10)),
           ''credit_score'' \<mapsto> VFloat (Fin (6999 / 10))] = Inr f \<and>
       loan_amount f = Fin 10000 \<and> loan_term f = 3 \<and> annual_income f = Fin 0 \<and>
       employment_length f = 0 \<and> credit_score f = 699 \<and> monthly_debt f = Fin 0"
proof -
  let ?d = "[''loan_amount'' \<mapsto> VInt 10000, ''loan_term'' \<mapsto> VFloat (Fin (37 / 10)),
             ''credit_score'' \<mapsto> VFloat (Fin (6999 / 10))]"
  have "\<exists>f. extract_features ?d = Inr f"
    by (subst extract_features_coerces [of ?d, THEN conjunct1]) simp
  then obtain f where f: "extract_features ?d = Inr f" ..
  note v = extract_features_coerces [of ?d, THEN conjunct2, rule_format, OF f]
  have la: "\<forall>i. ?d ''loan_amount'' = Some (VInt i) \<longrightarrow> loan_amount f = Fin (of_int i)"
    using v by (elim conjE)
  have lt: "\<forall>x. ?d ''loan_term'' = Some (VFloat (Fin x)) \<longrightarrow>
      loan_term f = (if 0 \<le> x then \<lfloor>x\<rfloor> else \<lceil>x\<rceil>)"
    using v by (elim conjE)
  have ai: "?d ''annual_income'' = None \<longrightarrow> annual_income f = Fin 0"
    using v by (elim conjE)
  have el: "?d ''employment_length'' = None \<longrightarrow> employment_length f = 0"
    using v by (elim conjE)
  have cs: "\<forall>x. ?d ''credit_score'' = Some (VFloat (Fin x)) \<longrightarrow>
      credit_score f = (if 0 \<le> x then \<lfloor>x\<rfloor> else \<lceil>x\<rceil>)"
    using v by (elim conjE)
  have md: "?d ''monthly_debt'' = None \<longrightarrow> monthly_debt f = Fin 0"
    using v by (elim conjE)
  have 1: "loan_amount f = Fin 10000"
    using la [rule_format, of 10000] by simp
  have 2: "loan_term f = 3"
    using lt [rule_format, of "37 / 10"] by simp
  have 3: "annual_income f = Fin 0"
    using ai by simp
  have 4: "employment_length f = 0"
    using el by simp
  have 5: "credit_score f = 699"
    using cs [rule_format, of "6999 / 10"] by simp
  have 6: "monthly_debt f = Fin 0"
    using md by simp
  show ?thesis using f 1 2 3 4 5 6 by blast
qed

text \<open>
  The counterexample to claim C4 as stated: a credit score of 699.9 becomes 699 where
  rounding gives 700, and the extraction raises on a blank (NaN) credit score and on a
  loan amount that is \<^verbatim>\<open>None\<close>.
\<close>

theorem extract_features_truncates_and_raises:
  "extract_features [''credit_score'' \<mapsto> VFloat (Fin (6999 / 10))] =
     Inr \<lparr>loan_amount = Fin 0, loan_term = 0, annual_income = Fin 0,
          employment_length = 0, credit_score = 699, monthly_debt = Fin 0\<rparr> \<and>
   round (6999 / 10 :: real) = 700 \<and>
   extract_features [''credit_score'' \<mapsto> VFloat NaN] = Inl ValueError \<and>
   extract_features [''loan_amount'' \<mapsto> VNone] = Inl TypeError"
  by (simp add: extract_features_def dict_get_def bindE_def round_def)



section \<open>Properties of the explanations\<close>

lemma credit_explanation_nonempty: "credit_explanation cs \<noteq> []"
  by (simp add: credit_explanation_def)

lemma dti_explanation_nonempty: "dti_explanation x \<noteq> []"
  by (simp add: dti_explanation_def)

lemma payment_explanation_nonempty: "payment_explanation x \<noteq> []"
  by (simp add: payment_explanation_def)

lemma amount_explanation_nonempty: "amount_explanation x y \<noteq> []"
  by (simp add: amount_explanation_def)

lemma py_truediv_guarded:
  "fgt b (Fin 0) \<Longrightarrow> py_truediv a b = Inr (fdiv a b)"
  by (auto simp: py_truediv_def fgt_def)

lemma py_truediv_by_int:
  "0 < n \<Longrightarrow> py_truediv a (Fin (of_int n)) = Inr (fdiv a (Fin (of_int n)))"
  by (simp add: py_truediv_def)

text \<open>The derived metrics never raise: every division stands under its guard.\<close>

lemma derived_metrics_eq:
  "derived_metrics la lt ai md =
     Inr (if fgt (fdiv ai (Fin 12)) (Fin 0) then fdiv md (fdiv ai (Fin 12)) else PInf,
          if fgt (fdiv ai (Fin 12)) (Fin 0)
          then fdiv (if lt > 0 then fdiv la (Fin (of_int lt)) else PInf) (fdiv ai (Fin 12))
          else PInf)"
  by (simp add: derived_metrics_def bindE_def py_truediv_guarded py_truediv_by_int
      py_truediv_def [of ai "Fin 12"])


lemma get_model_explanation_Inr_iff:
  "get_model_explanation d = Inr es \<longleftrightarrow>
     (\<exists>la lt ai cs md dti pti.
        py_float (dict_get d ''loan_amount'' (VInt 0)) = Inr la \<and>
        py_int (dict_get d ''loan_term'' (VInt 0)) = Inr lt \<and>
        py_float (dict_get d ''annual_income'' (VInt 0)) = Inr ai \<and>
        py_int (dict_get d ''credit_score'' (VInt 0)) = Inr cs \<and>
        py_float (dict_get d ''monthly_debt'' (VInt 0)) = Inr md \<and>
        derived_metrics la lt ai md = Inr (dti, pti) \<and>
        es = [credit_explanation cs, dti_explanation dti, payment_explanation pti,
              amount_explanation la ai])"
  apply (simp only: get_model_explanation_def bindE_Inr_iff split_paired_Ex prod.case sum.inject)
  apply (rule iffI)
   apply (elim exE conjE)
   apply (intro exI conjI; (assumption | rule sym, assumption))
  apply (elim exE conjE)
  apply (intro exI conjI; assumption?)
  apply (erule sym)
  done

lemma derived_metrics_total: "\<exists>dti pti. derived_metrics la lt ai md = Inr (dti, pti)"
  by (simp add: derived_metrics_eq)

lemma get_model_explanation_ok_iff:
  "(\<exists>es. get_model_explanation d = Inr es) \<longleftrightarrow>
     (\<exists>v. py_float (dict_get d ''loan_amount'' (VInt 0)) = Inr v) \<and>
     (\<exists>n. py_int (dict_get d ''loan_term'' (VInt 0)) = Inr n) \<and>
     (\<exists>v. py_float (dict_get d ''annual_income'' (VInt 0)) = Inr v) \<and>
     (\<exists>n. py_int (dict_get d ''credit_score'' (VInt 0)) = Inr n) \<and>
     (\<exists>v. py_float (dict_get d ''monthly_debt'' (VInt 0)) = Inr v)"
proof
  assume "\<exists>es. get_model_explanation d = Inr es"
  then obtain es where "get_model_explanation d = Inr es" ..
  then obtain la lt ai cs md where
    "py_float (dict_get d ''loan_amount'' (VInt 0)) = Inr la"
    "py_int (dict_get d ''loan_term'' (VInt 0)) = Inr lt"
    "py_float (dict_get d ''annual_income'' (VInt 0)) = Inr ai"
    "py_int (dict_get d ''credit_score'' (VInt 0)) = Inr cs"
    "py_float (dict_get d ''monthly_debt'' (VInt 0)) = Inr md"
    unfolding get_model_explanation_Inr_iff by (elim exE conjE)
  then show "(\<exists>v. py_float (dict_get d ''loan_amount'' (VInt 0)) = Inr v) \<and>
     (\<exists>n. py_int (dict_get d ''loan_term'' (VInt 0)) = Inr n) \<and>
     (\<exists>v. py_float (dict_get d ''annual_income'' (VInt 0)) = Inr v) \<and>
     (\<exists>n. py_int (dict_get d ''credit_score'' (VInt 0)) = Inr n) \<and>
     (\<exists>v. py_float (dict_get d ''monthly_debt'' (VInt 0)) = Inr v)"
    by (intro conjI exI)
next
  assume "(\<exists>v. py_float (dict_get d ''loan_amount'' (VInt 0)) = Inr v) \<and>
     (\<exists>n. py_int (dict_get d ''loan_term'' (VInt 0)) = Inr n) \<and>
     (\<exists>v. py_float (dict_get d ''annual_income'' (VInt 0)) = Inr v) \<and>
     (\<exists>n. py_int (dict_get d ''credit_score'' (VInt 0)) = Inr n) \<and>
     (\<exists>v. py_float (dict_get d ''monthly_debt'' (VInt 0)) = Inr v)"
  then obtain la lt ai cs md where c:
    "py_float (dict_get d ''loan_amount'' (VInt 0)) = Inr la"
    "py_int (dict_get d ''loan_term'' (VInt 0)) = Inr lt"
    "py_float (dict_get d ''annual_income'' (VInt 0)) = Inr ai"
    "py_int (dict_get d ''credit_score'' (VInt 0)) = Inr cs"
    "py_float (dict_get d ''monthly_debt'' (VInt 0)) = Inr md"
    by (elim exE conjE)
  obtain dti pti where m: "derived_metrics la lt ai md = Inr (dti, pti)"
    using derived_metrics_total by blast
  have "get_model_explanation d =
      Inr [credit_explanation cs, dti_explanation dti, payment_explanation pti,
           amount_explanation la ai]"
    unfolding get_model_explanation_Inr_iff
    by (rule exI [where x = la], rule exI [where x = lt], rule exI [where x = ai],
        rule exI [where x = cs], rule exI [where x = md], rule exI [where x = dti],
        rule exI [where x = pti]) (simp add: c m)
  then show "\<exists>es. get_model_explanation d = Inr es" ..
qed

lemma explanation_ok_keys:
  "(\<exists>es. get_model_explanation d = Inr es) \<longleftrightarrow>
      (\<forall>k \<in> {''loan_amount'', ''loan_term'', ''annual_income'', ''credit_score'',
              ''monthly_debt''}. d k \<noteq> Some VNone) \<and>
      (\<forall>k \<in> {''loan_term'', ''credit_score''}.
          d k \<notin> {Some (VFloat NaN), Some (VFloat PInf), Some (VFloat NInf)})"
  apply (simp only: get_model_explanation_ok_iff float_field_ok int_field_ok ball_simps
      insert_iff empty_iff de_Morgan_disj simp_thms)
  apply (rule iffI)
   apply (elim conjE)
   apply (intro conjI; assumption)
  apply (elim conjE)
  apply (intro conjI; assumption)
  done

text \<open>
  Claim C5, as the code has it. \<open>get_model_explanation\<close> returns a list exactly on the
  records whose five fields can be coerced: none of them is \<^verbatim>\<open>None\<close>, and neither
  \<open>loan_term\<close> nor \<open>credit_score\<close> is NaN or an infinity; on every other record it
  raises. When it returns, also where \<open>dti_ratio\<close> or \<open>payment_to_income\<close> is infinite
  because the monthly income or the term is not positive, the list has exactly 4 strings,
  none of them empty, one for each dimension in the fixed order: credit score,
  debt-to-income, payment-to-income, loan-to-income.
\<close>

theorem get_model_explanation_four:
  "((\<exists>es. get_model_explanation d = Inr es) \<longleftrightarrow>
      (\<forall>k \<in> {''loan_amount'', ''loan_term'', ''annual_income'', ''credit_score'',
              ''monthly_debt''}. d k \<noteq> Some VNone) \<and>
      (\<forall>k \<in> {''loan_term'', ''credit_score''}.
          d k \<notin> {Some (VFloat NaN), Some (VFloat PInf), Some (VFloat NInf)})) \<and>
   (\<forall>es. get_model_explanation d = Inr es \<longrightarrow>
      length es = 4 \<and> (\<forall>e \<in> set es. e \<noteq> []) \<and>
      (\<exists>la lt ai cs md dti pti.
         py_float (dict_get d ''loan_amount'' (VInt 0)) = Inr la \<and>
         py_int (dict_get d ''loan_term'' (VInt 0)) = Inr lt \<and>
         py_float (dict_get d ''annual_income'' (VInt 0)) = Inr ai \<and>
         py_int (dict_get d ''credit_score'' (VInt 0)) = Inr cs \<and>
         py_float (dict_get d ''monthly_debt'' (VInt 0)) = Inr md \<and>
         derived_metrics la lt ai md = Inr (dti, pti) \<and>
         es = [credit_explanation cs, dti_explanation dti, payment_explanation pti,
               amount_explanation la ai]))"
proof (intro conjI allI impI)
  show "(\<exists>es. get_model_explanation d = Inr es) \<longleftrightarrow>
      (\<forall>k \<in> {''loan_amount'', ''loan_term'', ''annual_income'', ''credit_score'',
              ''monthly_debt''}. d k \<noteq> Some VNone) \<and>
      (\<forall>k \<in> {''loan_term'', ''credit_score''}.
          d k \<notin> {Some (VFloat NaN), Some (VFloat PInf), Some (VFloat NInf)})"
    by (rule explanation_ok_keys)
next
  fix es
  assume a: "get_model_explanation d = Inr es"
  then obtain la lt ai cs md dti pti where
    es: "es = [credit_explanation cs, dti_explanation dti, payment_explanation pti,
               amount_explanation la ai]"
    unfolding get_model_explanation_Inr_iff by (elim exE conjE)
  show "length es = 4"
    by (simp add: es)
  show "\<forall>e \<in> set es. e \<noteq> []"
    by (simp add: es credit_explanation_nonempty dti_explanation_nonempty
        payment_explanation_nonempty amount_explanation_nonempty)
  show "\<exists>la lt ai cs md dti pti.
         py_float (dict_get d ''loan_amount'' (VInt 0)) = Inr la \<and>
         py_int (dict_get d ''loan_term'' (VInt 0)) = Inr lt \<and>
         py_float (dict_get d ''annual_income'' (VInt 0)) = Inr ai \<and>
         py_int (dict_get d ''credit_score'' (VInt 0)) = Inr cs \<and>
         py_float (dict_get d ''monthly_debt'' (VInt 0)) = Inr md \<and>
         derived_metrics la lt ai md = Inr (dti, pti) \<and>
         es = [credit_explanation cs, dti_explanation dti, payment_explanation pti,
               amount_explanation la ai]"
    using a unfolding get_model_explanation_Inr_iff .
qed

text \<open>
  The witness: a record with no income and no term, so that both ratios are infinite.
\<close>

theorem get_model_explanation_four_witness:
  "\<exists>es. get_model_explanation
          [''loan_amount'' \<mapsto> VFloat (Fin 10000), ''credit_score'' \<mapsto> VInt 700] = Inr es \<and>
        length es = 4 \<and> (\<forall>e \<in> set es. e \<noteq> [])"
proof -
  let ?d = "[''loan_amount'' \<mapsto> VFloat (Fin 10000), ''credit_score'' \<mapsto> VInt 700]"
  have "\<exists>es. get_model_explanation ?d = Inr es"
    by (subst get_model_explanation_four [of ?d, THEN conjunct1]) simp
  then obtain es where es: "get_model_explanation ?d = Inr es" ..
  note v = get_model_explanation_four [of ?d, THEN conjunct2, rule_format, OF es]
  have "length es = 4" using v by (elim conjE)
  moreover have "\<forall>e \<in> set es. e \<noteq> []" using v by (elim conjE)
  ultimately show ?thesis using es by blast
qed

text \<open>The four strings of the witness record.\<close>

lemma infinite_ratios_explained:
  "get_model_explanation
     [''loan_amount'' \<mapsto> VFloat (Fin 10000), ''credit_score'' \<mapsto> VInt 700] =
   Inr [''Your good credit score is a positive factor.'',
        ''Your high debt-to-income ratio may limit approval chances.'',
        ''The proposed loan payment is high relative to your income.'',
        ''Your requested loan amount is high relative to your annual income.'']"
  by (simp add: get_model_explanation_def dict_get_def bindE_def derived_metrics_eq fgt_def
      credit_explanation_def dti_explanation_def payment_explanation_def amount_explanation_def)


text \<open>
  The counterexample to claim C5 as stated: the scenario record with a blank (NaN) credit
  score, as a row of the applications file can hold it, raises ValueError, and a loan amount
  that is \<^verbatim>\<open>None\<close> raises TypeError.
\<close>

theorem get_model_explanation_raises:
  "get_model_explanation
     [''loan_amount'' \<mapsto> VFloat (Fin 10000), ''loan_term'' \<mapsto> VInt 3,
      ''annual_income'' \<mapsto> VFloat (Fin 50000), ''employment_length'' \<mapsto> VInt 1,
      ''credit_score'' \<mapsto> VFloat NaN, ''monthly_debt'' \<mapsto> VFloat (Fin 1000)] = Inl ValueError \<and>
   get_model_explanation [''loan_amount'' \<mapsto> VNone] = Inl TypeError"
  by (simp add: get_model_explanation_def dict_get_def bindE_def)



section \<open>The threshold ladders\<close>

text \<open>
  The entries of the list in terms of the coerced fields: the credit-score entry, the
  debt-to-income entry with the ratio that lines 130 and 131 derive, and the loan-amount
  entry.
\<close>

lemma get_model_explanation_nth:
  assumes "get_model_explanation d = Inr es"
    and "py_float (dict_get d ''loan_amount'' (VInt 0)) = Inr la"
    and "py_int (dict_get d ''loan_term'' (VInt 0)) = Inr lt"
    and "py_float (dict_get d ''annual_income'' (VInt 0)) = Inr ai"
    and "py_int (dict_get d ''credit_score'' (VInt 0)) = Inr cs"
    and "py_float (dict_get d ''monthly_debt'' (VInt 0)) = Inr md"
  shows "es ! 0 = credit_explanation cs"
    and "es ! 1 = dti_explanation
           (if fgt (fdiv ai (Fin 12)) (Fin 0) then fdiv md (fdiv ai (Fin 12)) else PInf)"
    and "es ! 3 = amount_explanation la ai"
proof -
  from assms(1) obtain la' lt' ai' cs' md' dti pti where
    c: "py_float (dict_get d ''loan_amount'' (VInt 0)) = Inr la'"
       "py_int (dict_get d ''loan_term'' (VInt 0)) = Inr lt'"
       "py_float (dict_get d ''annual_income'' (VInt 0)) = Inr ai'"
       "py_int (dict_get d ''credit_score'' (VInt 0)) = Inr cs'"
       "py_float (dict_get d ''monthly_debt'' (VInt 0)) = Inr md'"
    and m: "derived_metrics la' lt' ai' md' = Inr (dti, pti)"
    and es: "es = [credit_explanation cs', dti_explanation dti, payment_explanation pti,
               amount_explanation la' ai']"
    unfolding get_model_explanation_Inr_iff by (elim exE conjE)
  have eq: "la' = la" "lt' = lt" "ai' = ai" "cs' = cs" "md' = md"
    using c assms(2-6) by simp_all
  have dti: "dti = (if fgt (fdiv ai (Fin 12)) (Fin 0) then fdiv md (fdiv ai (Fin 12)) else PInf)"
    using m unfolding eq derived_metrics_eq by simp
  show "es ! 0 = credit_explanation cs"
    by (simp add: es eq)
  show "es ! 1 = dti_explanation
           (if fgt (fdiv ai (Fin 12)) (Fin 0) then fdiv md (fdiv ai (Fin 12)) else PInf)"
    by (simp add: es dti)
  show "es ! 3 = amount_explanation la ai"
    by (simp add: es eq)
qed


lemma amount_explanation_no_income:
  "amount_explanation la (Fin 0) =
     (if fle la (Fin 0)
      then ''Your requested loan amount is conservative relative to your annual income.''
      else ''Your requested loan amount is high relative to your annual income.'')"
  by (simp add: amount_explanation_def)





text \<open>
  Claim C10. When the annual income is 0, the fourth explanation is the conservative band
  exactly when the loan amount is at most 0, and the high band otherwise: a loan amount of
  0 is reported as conservative, a positive one as high relative to the annual income. The
  test compares the loan amount with the income times the threshold, which is 0.
\<close>

theorem no_income_amount_band:
  assumes "get_model_explanation d = Inr es"
    and "py_float (dict_get d ''annual_income'' (VInt 0)) = Inr (Fin 0)"
    and "py_float (dict_get d ''loan_amount'' (VInt 0)) = Inr la"
  shows "es ! 3 =
     (if fle la (Fin 0)
      then ''Your requested loan amount is conservative relative to your annual income.''
      else ''Your requested loan amount is high relative to your annual income.'') \<and>
    (es ! 3 = ''Your requested loan amount is conservative relative to your annual income.''
       \<longleftrightarrow> fle la (Fin 0))"
proof -
  from assms(1) obtain la' lt ai cs md where
    c: "py_float (dict_get d ''loan_amount'' (VInt 0)) = Inr la'"
       "py_int (dict_get d ''loan_term'' (VInt 0)) = Inr lt"
       "py_float (dict_get d ''annual_income'' (VInt 0)) = Inr ai"
       "py_int (dict_get d ''credit_score'' (VInt 0)) = Inr cs"
       "py_float (dict_get d ''monthly_debt'' (VInt 0)) = Inr md"
    unfolding get_model_explanation_Inr_iff by (elim exE conjE)
  have "es ! 3 = amount_explanation la (Fin 0)"
    using get_model_explanation_nth(3) [OF assms(1) assms(3) c(2) assms(2) c(4) c(5)] .
  then show ?thesis
    by (simp add: amount_explanation_no_income)
qed


text \<open>
  The witness: a record with no income and a loan amount of 0, and one with no income and
  a loan amount of 10000.
\<close>

theorem no_income_amount_band_witness:
  "(\<exists>es. get_model_explanation [''loan_amount'' \<mapsto> VFloat (Fin 0)] = Inr es \<and>
      es ! 3 = ''Your requested loan amount is conservative relative to your annual income.'') \<and>
   (\<exists>es. get_model_explanation
       [''loan_amount'' \<mapsto> VFloat (Fin 10000), ''credit_score'' \<mapsto> VInt 700] = Inr es \<and>
      es ! 3 = ''Your requested loan amount is high relative to your annual income.'')"
proof -
  let ?d1 = "[''loan_amount'' \<mapsto> VFloat (Fin 0)]"
  let ?d2 = "[''loan_amount'' \<mapsto> VFloat (Fin 10000), ''credit_score'' \<mapsto> VInt 700]"
  have "\<exists>es. get_model_explanation ?d1 = Inr es"
    by (subst explanation_ok_keys) simp
  then obtain es1 where e1: "get_model_explanation ?d1 = Inr es1" ..
  obtain es2 where e2: "get_model_explanation ?d2 = Inr es2"
    using infinite_ratios_explained by blast
  have i1: "py_float (dict_get ?d1 ''annual_income'' (VInt 0)) = Inr (Fin 0)"
    and l1: "py_float (dict_get ?d1 ''loan_amount'' (VInt 0)) = Inr (Fin 0)"
    by (simp_all add: dict_get_def)
  have i2: "py_float (dict_get ?d2 ''annual_income'' (VInt 0)) = Inr (Fin 0)"
    and l2: "py_float (dict_get ?d2 ''loan_amount'' (VInt 0)) = Inr (Fin 10000)"
    by (simp_all add: dict_get_def)
  have "es1 ! 3 = ''Your requested loan amount is conservative relative to your annual income.''"
    using no_income_amount_band [OF e1 i1 l1, THEN conjunct1] by simp
  moreover have "es2 ! 3 = ''Your requested loan amount is high relative to your annual income.''"
    using no_income_amount_band [OF e2 i2 l2, THEN conjunct1] by simp
  ultimately show ?thesis
    using e1 e2 by blast
qed


end
